theory Spec2Isabelle
  imports Main
begin

section \<open>The data table of package datatable\<close>

text \<open>
  A shallow embedding of \<^verbatim>\<open>datatable/datatable.go\<close>. Go strings are byte sequences
  compared bytewise, which is what \<^typ>\<open>string\<close> is. Slices are modelled by their
  contents (a list); a nil slice and an empty slice have the same contents and the code
  only ever asks for their length. Go's \<^verbatim>\<open>int\<close> is modelled by \<^typ>\<open>int\<close> where the
  code takes or returns one (the index of \<^verbatim>\<open>RemoveRow\<close>, the result of
  \<^verbatim>\<open>FindRow\<close>); no arithmetic on it can overflow before a bounds check fails.
\<close>

subsection \<open>Data\<close>

record Options =
  OptionalFields :: "string list"
  RequiredFields :: "string list"

text \<open>
  The field \<^verbatim>\<open>options *Options\<close> is a pointer that may be nil: an option. The struct
  field \<^verbatim>\<open>fields\<close> is written \<open>fields'\<close>, since the record package owns the name.
\<close>

record DataTable =
  fields' :: "string list"
  rows :: "string list list"
  options :: "Options option"

text \<open>
  The values built by \<^verbatim>\<open>fmt.Errorf\<close> and \<^verbatim>\<open>errors.New\<close>, with the data that
  the message is formatted from:
  \<^item> \<^verbatim>\<open>expected row length of %d, got %d\<close>,
  \<^item> \<^verbatim>\<open>data table must have at least two rows\<close>,
  \<^item> \<^verbatim>\<open>data table is missing required field %q\<close>,
  \<^item> \<^verbatim>\<open>data table contains additional field %q, allowed fields are ...\<close>.
\<close>

datatype error =
    RowLengthError nat nat
  | TooFewRowsError
  | MissingRequiredFieldError string
  | AdditionalFieldError string "string list"

text \<open>
  The run-time panics of Go that the code can reach: an index expression out of range and
  a slice expression out of range. They are not error values: no function of the package
  returns them, the run time raises them.
\<close>

datatype panic = IndexOutOfRange | SliceBoundsOutOfRange

text \<open>
  The types of the gherkin package that the code reads: a data table has rows, a row has
  cells, a cell has a value. The pointers between them are taken to be non-nil, as the
  gherkin parser builds them.
\<close>

record TableCell =
  Value :: string

record TableRow =
  Cells :: "TableCell list"

record GherkinDataTable =
  Rows :: "TableRow list"

subsection \<open>Helpers\<close>

text \<open>\<^verbatim>\<open>contains\<close>: a linear scan of the haystack.\<close>

fun contains :: "string list \<Rightarrow> string \<Rightarrow> bool" where
  "contains [] needle = False"
| "contains (element # haystack) needle =
     (if element = needle then True else contains haystack needle)"

text \<open>
  \<^verbatim>\<open>matchValues(a, b)\<close>: the loop runs over the indices of \<open>a\<close> and reads
  \<open>b[i]\<close> first, which panics when \<open>i\<close> is not an index of \<open>b\<close>.
\<close>

fun matchValues_loop :: "string list \<Rightarrow> string list \<Rightarrow> nat list \<Rightarrow> panic + bool" where
  "matchValues_loop a b [] = Inr True"
| "matchValues_loop a b (i # is) =
     (if length b \<le> i then Inl IndexOutOfRange
      else if b ! i \<noteq> a ! i then Inr False
      else matchValues_loop a b is)"

definition matchValues :: "string list \<Rightarrow> string list \<Rightarrow> panic + bool" where
  "matchValues a b = matchValues_loop a b [0..<length a]"

text \<open>
  \<^verbatim>\<open>values\<close> and \<^verbatim>\<open>rowValues\<close>: a slice of the right length is made (of empty
  strings, of nil slices) and filled index by index.
\<close>

fun values_loop :: "nat \<Rightarrow> TableCell list \<Rightarrow> string list \<Rightarrow> string list" where
  "values_loop i [] vals = vals"
| "values_loop i (cell # cells) vals = values_loop (Suc i) cells (vals[i := Value cell])"

definition values_of :: "TableRow \<Rightarrow> string list" where
  "values_of row = values_loop 0 (Cells row) (replicate (length (Cells row)) [])"

fun rowValues_loop :: "nat \<Rightarrow> TableRow list \<Rightarrow> string list list \<Rightarrow> string list list" where
  "rowValues_loop i [] vals = vals"
| "rowValues_loop i (row # rs) vals = rowValues_loop (Suc i) rs (vals[i := values_of row])"

definition rowValues :: "TableRow list \<Rightarrow> string list list" where
  "rowValues rs = rowValues_loop 0 rs (replicate (length rs) [])"

subsection \<open>Construction\<close>

text \<open>\<^verbatim>\<open>validateFields\<close>; nil is \<open>None\<close>.\<close>

fun required_loop :: "string list \<Rightarrow> string list \<Rightarrow> error option" where
  "required_loop fs [] = None"
| "required_loop fs (field # required) =
     (if \<not> contains fs field then Some (MissingRequiredFieldError field)
      else required_loop fs required)"

fun allowed_loop :: "string list \<Rightarrow> string list \<Rightarrow> error option" where
  "allowed_loop allowedFields [] = None"
| "allowed_loop allowedFields (field # fs) =
     (if \<not> contains allowedFields field then Some (AdditionalFieldError field allowedFields)
      else allowed_loop allowedFields fs)"

definition validateFields :: "DataTable \<Rightarrow> error option" where
  "validateFields t =
     (case options t of
        None \<Rightarrow> None
      | Some opts \<Rightarrow>
          (case required_loop (fields' t) (RequiredFields opts) of
             Some err \<Rightarrow> Some err
           | None \<Rightarrow>
               if length (OptionalFields opts) = 0 then None
               else let allowedFields = OptionalFields opts @ RequiredFields opts
                    in allowed_loop allowedFields (fields' t)))"

text \<open>
  \<^verbatim>\<open>NewWithOptions\<close> returns \<^verbatim>\<open>(nil, err)\<close> or \<^verbatim>\<open>(dt, nil)\<close>: a sum, with the
  error on the left.
\<close>

fun rowLength_loop :: "string list \<Rightarrow> string list list \<Rightarrow> error option" where
  "rowLength_loop fs [] = None"
| "rowLength_loop fs (row # rs) =
     (if length row \<noteq> length fs then Some (RowLengthError (length fs) (length row))
      else rowLength_loop fs rs)"

definition NewWithOptions ::
  "Options option \<Rightarrow> string list \<Rightarrow> string list list \<Rightarrow> error + DataTable" where
  "NewWithOptions opts fs rs =
     (case rowLength_loop fs rs of
        Some err \<Rightarrow> Inl err
      | None \<Rightarrow>
          (let dt = \<lparr>fields' = fs, rows = rs, options = opts\<rparr>
           in case validateFields dt of Some err \<Rightarrow> Inl err | None \<Rightarrow> Inr dt))"

definition New :: "string list \<Rightarrow> string list list \<Rightarrow> error + DataTable" where
  "New fs rs = NewWithOptions None fs rs"

definition FromGherkinWithOptions ::
  "Options option \<Rightarrow> GherkinDataTable \<Rightarrow> error + DataTable" where
  "FromGherkinWithOptions opts dt =
     (if length (Rows dt) < 2 then Inl TooFewRowsError
      else NewWithOptions opts (values_of (Rows dt ! 0)) (rowValues (drop 1 (Rows dt))))"


subsection \<open>Queries and mutation\<close>

text \<open>
  \<^verbatim>\<open>FindRow\<close>: the index of the first row for which \<^verbatim>\<open>matchValues(r, row)\<close> is
  true, \<open>-1\<close> when the loop ends; a panic of \<^verbatim>\<open>matchValues\<close> ends the call.
\<close>

fun FindRow_loop :: "nat \<Rightarrow> string list list \<Rightarrow> string list \<Rightarrow> panic + int" where
  "FindRow_loop i [] row = Inr (- 1)"
| "FindRow_loop i (r # rs) row =
     (case matchValues r row of
        Inl p \<Rightarrow> Inl p
      | Inr True \<Rightarrow> Inr (int i)
      | Inr False \<Rightarrow> FindRow_loop (Suc i) rs row)"

definition FindRow :: "DataTable \<Rightarrow> string list \<Rightarrow> panic + int" where
  "FindRow t row = FindRow_loop 0 (rows t) row"

text \<open>
  The methods that assign to \<^verbatim>\<open>t.rows\<close> return the table after the call together
  with what the call gave back.

  \<^verbatim>\<open>RemoveRow\<close> has no result and no check of its own. The slice expression
  \<^verbatim>\<open>t.rows[:index]\<close> panics for a negative index (and for one above the capacity),
  \<^verbatim>\<open>t.rows[index+1:]\<close> panics when \<open>index + 1\<close> is above the length; both are
  evaluated before the assignment, so a panic leaves the table as it was.
\<close>

definition RemoveRow :: "DataTable \<Rightarrow> int \<Rightarrow> DataTable \<times> panic option" where
  "RemoveRow t index =
     (if index < 0 \<or> int (length (rows t)) < index + 1 then (t, Some SliceBoundsOutOfRange)
      else (t\<lparr>rows := take (nat index) (rows t) @ drop (nat (index + 1)) (rows t)\<rparr>, None))"

definition AppendRow :: "DataTable \<Rightarrow> string list \<Rightarrow> DataTable \<times> error option" where
  "AppendRow t row =
     (if length row \<noteq> length (fields' t)
      then (t, Some (RowLengthError (length (fields' t)) (length row)))
      else (t\<lparr>rows := rows t @ [row]\<rparr>, None))"

text \<open>
  Modelled from the spec: \<^verbatim>\<open>copier.Copy(to, from)\<close> of the library
  \<^verbatim>\<open>github.com/jinzhu/copier\<close>, which is not part of the sources. The spec says that
  the copy's fields and rows are copies of the source's, equal in value: the destination
  gets the contents of the source. (Whether the two share storage is not modelled.)
\<close>

definition copier_Copy :: "'a list \<Rightarrow> 'a list \<Rightarrow> 'a list" where
  "copier_Copy to from = from"

text \<open>
  \<^verbatim>\<open>Copy\<close>: the new struct is built from two fresh slices, with no value for
  \<^verbatim>\<open>options\<close> (so nil), and the fields and rows are then copied into them.
\<close>

definition Copy :: "DataTable \<Rightarrow> DataTable" where
  "Copy t =
     (let c = \<lparr>fields' = replicate (length (fields' t)) [],
                rows = replicate (length (rows t)) [],
                options = None\<rparr>;
          c = c\<lparr>fields' := copier_Copy (fields' c) (fields' t)\<rparr>;
          c = c\<lparr>rows := copier_Copy (rows c) (rows t)\<rparr>
      in c)"

definition Len :: "DataTable \<Rightarrow> int" where
  "Len t = int (length (rows t))"

definition Fields :: "DataTable \<Rightarrow> string list" where
  "Fields t = fields' t"

definition RowValues :: "DataTable \<Rightarrow> string list list" where
  "RowValues t = rows t"

subsection \<open>The row search as the specification words it\<close>



subsection \<open>The table of the tests\<close>

text \<open>\<^verbatim>\<open>testData()\<close> of the test file, as the table that \<^verbatim>\<open>New\<close> builds from it.\<close>

definition testData :: DataTable where
  "testData =
     \<lparr>fields' = [''one'', ''two'', ''three''],
      rows = [[''1'', ''2'', ''3''], [''4'', ''5'', ''6''], [''7'', ''8'', ''9'']],
      options = None\<rparr>"

text \<open>
  The same data as the gherkin table that \<^verbatim>\<open>buildTable\<close> makes in
  \<^verbatim>\<open>TestFromGherkin\<close>: the fields as the first row, then the rows.
\<close>

definition testTable :: GherkinDataTable where
  "testTable =
     \<lparr>Rows =
        [\<lparr>Cells = [\<lparr>Value = ''one''\<rparr>, \<lparr>Value = ''two''\<rparr>, \<lparr>Value = ''three''\<rparr>]\<rparr>,
         \<lparr>Cells = [\<lparr>Value = ''1''\<rparr>, \<lparr>Value = ''2''\<rparr>, \<lparr>Value = ''3''\<rparr>]\<rparr>,
         \<lparr>Cells = [\<lparr>Value = ''4''\<rparr>, \<lparr>Value = ''5''\<rparr>, \<lparr>Value = ''6''\<rparr>]\<rparr>,
         \<lparr>Cells = [\<lparr>Value = ''7''\<rparr>, \<lparr>Value = ''8''\<rparr>, \<lparr>Value = ''9''\<rparr>]\<rparr>]\<rparr>"


text \<open>
  The table of the case ``required fields present'' of \<^verbatim>\<open>TestNewWithOptions\<close>: it is
  built with options.
\<close>

definition requiredTable :: DataTable where
  "requiredTable =
     \<lparr>fields' = [''name'', ''value''], rows = [[''foo'', ''bar'']],
      options = Some \<lparr>OptionalFields = [], RequiredFields = [''value'', ''name'']\<rparr>\<rparr>"

subsection \<open>The tables that the package can produce\<close>


section \<open>Facts about the helpers\<close>

lemma contains_iff: "contains haystack needle \<longleftrightarrow> needle \<in> set haystack"
  by (induction haystack) auto







lemma matchValues_Nil: "matchValues [] b = Inr True"
  by (simp add: matchValues_def)





text \<open>The two conversion loops fill every index: they are maps.\<close>

lemma values_loop_eq:
  "length vals = i + length cells \<Longrightarrow>
     values_loop i cells vals = take i vals @ map Value cells"
proof (induction cells arbitrary: i vals)
  case Nil
  then show ?case by simp
next
  case (Cons cell cells)
  then have "values_loop (Suc i) cells (vals[i := Value cell]) =
               take (Suc i) (vals[i := Value cell]) @ map Value cells"
    by simp
  moreover have "take (Suc i) (vals[i := Value cell]) = take i vals @ [Value cell]"
    using Cons.prems by (simp add: take_Suc_conv_app_nth)
  ultimately show ?case by simp
qed

lemma values_of_eq: "values_of row = map Value (Cells row)"
  by (simp add: values_of_def values_loop_eq)

lemma rowValues_loop_eq:
  "length vals = i + length rs \<Longrightarrow>
     rowValues_loop i rs vals = take i vals @ map values_of rs"
proof (induction rs arbitrary: i vals)
  case Nil
  then show ?case by simp
next
  case (Cons row rs)
  then have "rowValues_loop (Suc i) rs (vals[i := values_of row]) =
               take (Suc i) (vals[i := values_of row]) @ map values_of rs"
    by simp
  moreover have "take (Suc i) (vals[i := values_of row]) = take i vals @ [values_of row]"
    using Cons.prems by (simp add: take_Suc_conv_app_nth)
  ultimately show ?case by simp
qed

lemma rowValues_eq: "rowValues rs = map (\<lambda>row. map Value (Cells row)) rs"
  by (simp add: rowValues_def rowValues_loop_eq values_of_eq)

lemma rowLength_loop_None:
  "rowLength_loop fs rs = None \<longleftrightarrow> (\<forall>r\<in>set rs. length r = length fs)"
  by (induction rs) auto

lemma rowLength_loop_first:
  "\<forall>p\<in>set pre. length p = length fs \<Longrightarrow> length r \<noteq> length fs \<Longrightarrow>
     rowLength_loop fs (pre @ r # post) = Some (RowLengthError (length fs) (length r))"
  by (induction pre) auto

lemma rowLength_loop_Some:
  "\<exists>r\<in>set rs. length r \<noteq> length fs \<Longrightarrow>
     \<exists>r\<in>set rs. length r \<noteq> length fs \<and>
       rowLength_loop fs rs = Some (RowLengthError (length fs) (length r))"
  by (induction rs) auto

lemma required_loop_None:
  "required_loop fs required = None \<longleftrightarrow> set required \<subseteq> set fs"
  by (induction required) (auto simp: contains_iff)

lemma required_loop_first:
  "set pre \<subseteq> set fs \<Longrightarrow> g \<notin> set fs \<Longrightarrow>
     required_loop fs (pre @ g # post) = Some (MissingRequiredFieldError g)"
  by (induction pre) (auto simp: contains_iff)

lemma allowed_loop_None:
  "allowed_loop allowedFields fs = None \<longleftrightarrow> set fs \<subseteq> set allowedFields"
  by (induction fs) (auto simp: contains_iff)

lemma allowed_loop_first:
  "set pre \<subseteq> set allowedFields \<Longrightarrow> f \<notin> set allowedFields \<Longrightarrow>
     allowed_loop allowedFields (pre @ f # post) = Some (AdditionalFieldError f allowedFields)"
  by (induction pre) (auto simp: contains_iff)





lemma New_testData:
  "New [''one'', ''two'', ''three'']
     [[''1'', ''2'', ''3''], [''4'', ''5'', ''6''], [''7'', ''8'', ''9'']] = Inr testData"
  by (simp add: New_def NewWithOptions_def validateFields_def testData_def)


section \<open>The row search\<close>




text \<open>
  C10. On a table that has at least one row and whose rows are all empty, \<^verbatim>\<open>FindRow\<close>
  returns 0 for every candidate; such a table is what \<^verbatim>\<open>New\<close> builds from no fields
  and at least one row.
\<close>

theorem FindRow_empty_rows:
  "(rows t \<noteq> [] \<and> (\<forall>r\<in>set (rows t). r = []) \<longrightarrow> FindRow t row = Inr 0) \<and>
   (rs \<noteq> [] \<and> New [] rs = Inr t \<longrightarrow> FindRow t row = Inr 0)"
proof (intro conjI impI)
  assume "rows t \<noteq> [] \<and> (\<forall>r\<in>set (rows t). r = [])"
  then obtain rest where "rows t = [] # rest"
    by (cases "rows t") auto
  then show "FindRow t row = Inr 0"
    by (simp add: FindRow_def matchValues_Nil)
next
  assume a: "rs \<noteq> [] \<and> New [] rs = Inr t"
  then obtain r rest where rs: "rs = r # rest"
    by (cases rs) auto
  from a rs have "r = [] \<and> rows t = rs"
    by (auto simp: New_def NewWithOptions_def validateFields_def
        split: if_splits option.splits)
  with rs show "FindRow t row = Inr 0"
    by (simp add: FindRow_def matchValues_Nil)
qed

theorem FindRow_empty_rows_witness:
  "FindRow \<lparr>fields' = [], rows = [[], []], options = None\<rparr> [''4'', ''5''] = Inr 0 \<and>
   New [] [[], []] = Inr \<lparr>fields' = [], rows = [[], []], options = None\<rparr>"
proof -
  have new: "New [] [[], []] = Inr \<lparr>fields' = [], rows = [[], []], options = None\<rparr>"
    by (simp add: New_def NewWithOptions_def validateFields_def)
  have "[[], []] \<noteq> ([] :: string list list) \<and> New [] [[], []] =
          Inr \<lparr>fields' = [], rows = [[], []], options = None\<rparr>"
    using new by simp
  then show ?thesis
    using FindRow_empty_rows
      [of "\<lparr>fields' = [], rows = [[], []], options = None\<rparr>" "[''4'', ''5'']" "[[], []]"]
    by simp
qed

section \<open>Construction\<close>

text \<open>
  C3. When the table is built with options and every row has the length of the fields:
  the first required field that is not among the fields fails the construction with the
  error that names it; with all required fields present and optional fields given, the
  first field that is neither optional nor required fails it with the error that names
  the field and lists the optional fields followed by the required ones, and a field list
  inside that set is accepted; with all required fields present and no optional fields,
  the table is built whatever other fields there are.
\<close>

theorem NewWithOptions_schema:
  assumes "\<forall>r\<in>set rs. length r = length fs"
  shows
   "(RequiredFields opts = pre @ g # post \<and> set pre \<subseteq> set fs \<and> g \<notin> set fs \<longrightarrow>
       NewWithOptions (Some opts) fs rs = Inl (MissingRequiredFieldError g)) \<and>
    (set (RequiredFields opts) \<subseteq> set fs \<and> OptionalFields opts \<noteq> [] \<and>
     fs = pre' @ f # post' \<and>
     set pre' \<subseteq> set (OptionalFields opts) \<union> set (RequiredFields opts) \<and>
     f \<notin> set (OptionalFields opts) \<union> set (RequiredFields opts) \<longrightarrow>
       NewWithOptions (Some opts) fs rs =
         Inl (AdditionalFieldError f (OptionalFields opts @ RequiredFields opts))) \<and>
    (set (RequiredFields opts) \<subseteq> set fs \<and> OptionalFields opts \<noteq> [] \<and>
     set fs \<subseteq> set (OptionalFields opts) \<union> set (RequiredFields opts) \<longrightarrow>
       NewWithOptions (Some opts) fs rs = Inr \<lparr>fields' = fs, rows = rs, options = Some opts\<rparr>) \<and>
    (set (RequiredFields opts) \<subseteq> set fs \<and> OptionalFields opts = [] \<longrightarrow>
       NewWithOptions (Some opts) fs rs = Inr \<lparr>fields' = fs, rows = rs, options = Some opts\<rparr>)"
proof -
  have len: "rowLength_loop fs rs = None"
    using assms by (simp add: rowLength_loop_None)
  have new: "NewWithOptions (Some opts) fs rs =
      (case validateFields \<lparr>fields' = fs, rows = rs, options = Some opts\<rparr> of
         Some err \<Rightarrow> Inl err
       | None \<Rightarrow> Inr \<lparr>fields' = fs, rows = rs, options = Some opts\<rparr>)"
    by (simp add: NewWithOptions_def len Let_def)
  have missing: "NewWithOptions (Some opts) fs rs = Inl (MissingRequiredFieldError g)"
    if "RequiredFields opts = pre @ g # post" "set pre \<subseteq> set fs" "g \<notin> set fs"
    using that by (simp add: new validateFields_def required_loop_first)
  have unknown: "NewWithOptions (Some opts) fs rs =
         Inl (AdditionalFieldError f (OptionalFields opts @ RequiredFields opts))"
    if "set (RequiredFields opts) \<subseteq> set fs" "OptionalFields opts \<noteq> []"
      "fs = pre' @ f # post'"
      "set pre' \<subseteq> set (OptionalFields opts) \<union> set (RequiredFields opts)"
      "f \<notin> set (OptionalFields opts) \<union> set (RequiredFields opts)"
  proof -
    have "required_loop fs (RequiredFields opts) = None"
      using that(1) by (simp add: required_loop_None)
    moreover have "allowed_loop (OptionalFields opts @ RequiredFields opts) fs =
        Some (AdditionalFieldError f (OptionalFields opts @ RequiredFields opts))"
      unfolding that(3) using that(4,5) by (intro allowed_loop_first) auto
    ultimately show ?thesis
      using that(2) by (simp add: new validateFields_def)
  qed
  have closed: "NewWithOptions (Some opts) fs rs =
         Inr \<lparr>fields' = fs, rows = rs, options = Some opts\<rparr>"
    if "set (RequiredFields opts) \<subseteq> set fs" "OptionalFields opts \<noteq> []"
      "set fs \<subseteq> set (OptionalFields opts) \<union> set (RequiredFields opts)"
  proof -
    have "required_loop fs (RequiredFields opts) = None"
      using that(1) by (simp add: required_loop_None)
    moreover have "allowed_loop (OptionalFields opts @ RequiredFields opts) fs = None"
      using that(3) by (simp add: allowed_loop_None)
    ultimately show ?thesis
      using that(2) by (simp add: new validateFields_def)
  qed
  have "open": "NewWithOptions (Some opts) fs rs =
         Inr \<lparr>fields' = fs, rows = rs, options = Some opts\<rparr>"
    if "set (RequiredFields opts) \<subseteq> set fs" "OptionalFields opts = []"
  proof -
    have "required_loop fs (RequiredFields opts) = None"
      using that(1) by (simp add: required_loop_None)
    then show ?thesis
      using that(2) by (simp add: new validateFields_def)
  qed
  show ?thesis
    using missing unknown closed "open" by blast
qed

theorem NewWithOptions_schema_witness:
  "NewWithOptions (Some \<lparr>OptionalFields = [], RequiredFields = [''value'', ''name'']\<rparr>)
     [''name''] [[''foo'']] = Inl (MissingRequiredFieldError ''value'') \<and>
   NewWithOptions (Some \<lparr>OptionalFields = [''value'', ''name''], RequiredFields = []\<rparr>)
     [''name'', ''unknown''] [[''foo'', ''baz'']] =
     Inl (AdditionalFieldError ''unknown'' [''value'', ''name'']) \<and>
   NewWithOptions (Some \<lparr>OptionalFields = [''tag''], RequiredFields = [''name'', ''value'']\<rparr>)
     [''name'', ''value'', ''tag''] [[''foo'', ''bar'', ''baz'']] =
     Inr \<lparr>fields' = [''name'', ''value'', ''tag''], rows = [[''foo'', ''bar'', ''baz'']],
          options = Some \<lparr>OptionalFields = [''tag''], RequiredFields = [''name'', ''value'']\<rparr>\<rparr> \<and>
   NewWithOptions (Some \<lparr>OptionalFields = [], RequiredFields = [''value'', ''name'']\<rparr>)
     [''name'', ''value'', ''additonal''] [[''foo'', ''bar'', ''baz'']] =
     Inr \<lparr>fields' = [''name'', ''value'', ''additonal''], rows = [[''foo'', ''bar'', ''baz'']],
          options = Some \<lparr>OptionalFields = [], RequiredFields = [''value'', ''name'']\<rparr>\<rparr>"
proof (intro conjI)
  show "NewWithOptions (Some \<lparr>OptionalFields = [], RequiredFields = [''value'', ''name'']\<rparr>)
     [''name''] [[''foo'']] = Inl (MissingRequiredFieldError ''value'')"
    using NewWithOptions_schema
      [where rs = "[[''foo'']]" and fs = "[''name'']"
         and opts = "\<lparr>OptionalFields = [], RequiredFields = [''value'', ''name'']\<rparr>"
         and pre = "[]" and g = "''value''" and post = "[''name'']"]
    by simp
  show "NewWithOptions (Some \<lparr>OptionalFields = [''value'', ''name''], RequiredFields = []\<rparr>)
     [''name'', ''unknown''] [[''foo'', ''baz'']] =
     Inl (AdditionalFieldError ''unknown'' [''value'', ''name''])"
    using NewWithOptions_schema
      [where rs = "[[''foo'', ''baz'']]" and fs = "[''name'', ''unknown'']"
         and opts = "\<lparr>OptionalFields = [''value'', ''name''], RequiredFields = []\<rparr>"
         and pre' = "[''name'']" and f = "''unknown''" and post' = "[]"]
    by simp
  show "NewWithOptions (Some \<lparr>OptionalFields = [''tag''], RequiredFields = [''name'', ''value'']\<rparr>)
     [''name'', ''value'', ''tag''] [[''foo'', ''bar'', ''baz'']] =
     Inr \<lparr>fields' = [''name'', ''value'', ''tag''], rows = [[''foo'', ''bar'', ''baz'']],
          options = Some \<lparr>OptionalFields = [''tag''], RequiredFields = [''name'', ''value'']\<rparr>\<rparr>"
    using NewWithOptions_schema
      [where rs = "[[''foo'', ''bar'', ''baz'']]" and fs = "[''name'', ''value'', ''tag'']"
         and opts = "\<lparr>OptionalFields = [''tag''], RequiredFields = [''name'', ''value'']\<rparr>"]
    by simp
  show "NewWithOptions (Some \<lparr>OptionalFields = [], RequiredFields = [''value'', ''name'']\<rparr>)
     [''name'', ''value'', ''additonal''] [[''foo'', ''bar'', ''baz'']] =
     Inr \<lparr>fields' = [''name'', ''value'', ''additonal''], rows = [[''foo'', ''bar'', ''baz'']],
          options = Some \<lparr>OptionalFields = [], RequiredFields = [''value'', ''name'']\<rparr>\<rparr>"
    using NewWithOptions_schema
      [where rs = "[[''foo'', ''bar'', ''baz'']]" and fs = "[''name'', ''value'', ''additonal'']"
         and opts = "\<lparr>OptionalFields = [], RequiredFields = [''value'', ''name'']\<rparr>"]
    by simp
qed

text \<open>
  C4. The first row whose length differs from the number of fields fails the construction
  with the error that reports the number of fields and the row's length: the result is
  the error alone, with no table, whatever the options are (so before any check of the
  fields). With rows of the right length, the first missing required field is the error
  whatever the optional fields are (so before the check against the allowed fields). The
  result is one error, the first.
\<close>

theorem NewWithOptions_check_order:
  "((\<exists>r\<in>set rs. length r \<noteq> length fs) \<longrightarrow>
      (\<exists>r\<in>set rs. length r \<noteq> length fs \<and>
         NewWithOptions opts fs rs = Inl (RowLengthError (length fs) (length r)))) \<and>
   (rs = pre @ r # post \<and> (\<forall>p\<in>set pre. length p = length fs) \<and> length r \<noteq> length fs \<longrightarrow>
      NewWithOptions opts fs rs = Inl (RowLengthError (length fs) (length r))) \<and>
   ((\<forall>r\<in>set rs. length r = length fs) \<and> required = pre' @ g # post' \<and>
    set pre' \<subseteq> set fs \<and> g \<notin> set fs \<longrightarrow>
      NewWithOptions (Some \<lparr>OptionalFields = optional, RequiredFields = required\<rparr>) fs rs =
        Inl (MissingRequiredFieldError g))"
proof (intro conjI impI)
  assume "\<exists>r\<in>set rs. length r \<noteq> length fs"
  from rowLength_loop_Some [OF this]
  show "\<exists>r\<in>set rs. length r \<noteq> length fs \<and>
         NewWithOptions opts fs rs = Inl (RowLengthError (length fs) (length r))"
    by (auto simp: NewWithOptions_def)
next
  assume "rs = pre @ r # post \<and> (\<forall>p\<in>set pre. length p = length fs) \<and> length r \<noteq> length fs"
  then show "NewWithOptions opts fs rs = Inl (RowLengthError (length fs) (length r))"
    by (simp add: NewWithOptions_def rowLength_loop_first)
next
  assume a: "(\<forall>r\<in>set rs. length r = length fs) \<and> required = pre' @ g # post' \<and>
    set pre' \<subseteq> set fs \<and> g \<notin> set fs"
  then have "rowLength_loop fs rs = None"
    by (simp add: rowLength_loop_None)
  moreover from a have "required_loop fs required = Some (MissingRequiredFieldError g)"
    by (simp add: required_loop_first)
  ultimately show
    "NewWithOptions (Some \<lparr>OptionalFields = optional, RequiredFields = required\<rparr>) fs rs =
        Inl (MissingRequiredFieldError g)"
    by (simp add: NewWithOptions_def validateFields_def)
qed

theorem NewWithOptions_check_order_witness:
  "NewWithOptions (Some \<lparr>OptionalFields = [''tag''], RequiredFields = [''name'', ''value'']\<rparr>)
     [''name'', ''unknown''] [[''foo'', ''baz''], [''foo'']] = Inl (RowLengthError 2 1) \<and>
   NewWithOptions (Some \<lparr>OptionalFields = [''tag''], RequiredFields = [''name'', ''value'']\<rparr>)
     [''name'', ''unknown''] [[''foo'', ''baz'']] = Inl (MissingRequiredFieldError ''value'')"
proof (intro conjI)
  show "NewWithOptions (Some \<lparr>OptionalFields = [''tag''], RequiredFields = [''name'', ''value'']\<rparr>)
     [''name'', ''unknown''] [[''foo'', ''baz''], [''foo'']] = Inl (RowLengthError 2 1)"
    using NewWithOptions_check_order
      [where rs = "[[''foo'', ''baz''], [''foo'']]" and pre = "[[''foo'', ''baz'']]"
         and r = "[''foo'']" and post = "[]" and fs = "[''name'', ''unknown'']"
         and opts = "Some \<lparr>OptionalFields = [''tag''], RequiredFields = [''name'', ''value'']\<rparr>"]
    by simp
  show "NewWithOptions (Some \<lparr>OptionalFields = [''tag''], RequiredFields = [''name'', ''value'']\<rparr>)
     [''name'', ''unknown''] [[''foo'', ''baz'']] = Inl (MissingRequiredFieldError ''value'')"
    using NewWithOptions_check_order
      [where rs = "[[''foo'', ''baz'']]" and fs = "[''name'', ''unknown'']"
         and required = "[''name'', ''value'']" and pre' = "[''name'']" and g = "''value''"
         and post' = "[]" and optional = "[''tag'']"]
    by simp
qed

text \<open>
  C5. \<^verbatim>\<open>FromGherkinWithOptions\<close> fails with the error for too few rows when the gherkin
  table has fewer than two rows. Otherwise its result is the result of
  \<^verbatim>\<open>NewWithOptions\<close>, with the same options, on the cell values of the first row as
  fields and the cell values of each later row, in order, as rows.
\<close>

theorem FromGherkinWithOptions_delegates:
  "(length (Rows dt) < 2 \<longrightarrow> FromGherkinWithOptions opts dt = Inl TooFewRowsError) \<and>
   (2 \<le> length (Rows dt) \<longrightarrow>
      FromGherkinWithOptions opts dt =
        NewWithOptions opts (map Value (Cells (hd (Rows dt))))
          (map (\<lambda>row. map Value (Cells row)) (tl (Rows dt))))"
proof (intro conjI impI)
  assume "length (Rows dt) < 2"
  then show "FromGherkinWithOptions opts dt = Inl TooFewRowsError"
    by (simp add: FromGherkinWithOptions_def)
next
  assume "2 \<le> length (Rows dt)"
  then obtain header second rest where "Rows dt = header # second # rest"
    by (auto simp: numeral_2_eq_2 Suc_le_length_iff)
  then show "FromGherkinWithOptions opts dt =
        NewWithOptions opts (map Value (Cells (hd (Rows dt))))
          (map (\<lambda>row. map Value (Cells row)) (tl (Rows dt)))"
    by (simp add: FromGherkinWithOptions_def values_of_eq rowValues_eq)
qed

theorem FromGherkinWithOptions_delegates_witness:
  "FromGherkinWithOptions None \<lparr>Rows = [\<lparr>Cells = [\<lparr>Value = ''foo''\<rparr>]\<rparr>]\<rparr> = Inl TooFewRowsError \<and>
   FromGherkinWithOptions None testTable = Inr testData"
proof (intro conjI)
  show "FromGherkinWithOptions None \<lparr>Rows = [\<lparr>Cells = [\<lparr>Value = ''foo''\<rparr>]\<rparr>]\<rparr> = Inl TooFewRowsError"
    using FromGherkinWithOptions_delegates [of "\<lparr>Rows = [\<lparr>Cells = [\<lparr>Value = ''foo''\<rparr>]\<rparr>]\<rparr>" None]
    by simp
  show "FromGherkinWithOptions None testTable = Inr testData"
    using FromGherkinWithOptions_delegates [of testTable None] New_testData
    by (simp add: testTable_def New_def)
qed

text \<open>
  C8. When every row has as many cells as there are fields, \<^verbatim>\<open>New\<close> succeeds, and on
  its table \<^verbatim>\<open>Fields\<close> gives the fields and \<^verbatim>\<open>RowValues\<close> gives the rows, both as
  supplied.
\<close>

theorem New_identity:
  assumes "\<forall>r\<in>set rs. length r = length fs"
  shows "\<exists>t. New fs rs = Inr t \<and> Fields t = fs \<and> RowValues t = rs"
proof -
  have "rowLength_loop fs rs = None"
    using assms by (simp add: rowLength_loop_None)
  then have "New fs rs = Inr \<lparr>fields' = fs, rows = rs, options = None\<rparr>"
    by (simp add: New_def NewWithOptions_def validateFields_def)
  then show ?thesis
    by (simp add: Fields_def RowValues_def)
qed

theorem New_identity_witness:
  "New [''one'', ''two'', ''three'']
     [[''1'', ''2'', ''3''], [''4'', ''5'', ''6''], [''7'', ''8'', ''9'']] = Inr testData \<and>
   Fields testData = [''one'', ''two'', ''three''] \<and>
   RowValues testData = [[''1'', ''2'', ''3''], [''4'', ''5'', ''6''], [''7'', ''8'', ''9'']]"
  using New_identity [of "[[''1'', ''2'', ''3''], [''4'', ''5'', ''6''], [''7'', ''8'', ''9'']]"
      "[''one'', ''two'', ''three'']"] New_testData
  by (simp add: Fields_def RowValues_def testData_def)

section \<open>Mutation\<close>

text \<open>
  C6, amended. For an index from 0 up to the number of rows (excluded), \<^verbatim>\<open>RemoveRow\<close>
  leaves the rows before the index where they are, moves each row after it one position
  down and drops the row at the index: there is one row less. For any other index the
  call has no check of its own and no error to return: the slice expression panics in
  the run time, before the assignment, and the table is as it was.
\<close>

theorem RemoveRow_in_and_out_of_range:
  "(0 \<le> index \<and> index < int (length (rows t)) \<longrightarrow>
      RemoveRow t index =
        (t\<lparr>rows := take (nat index) (rows t) @ drop (Suc (nat index)) (rows t)\<rparr>, None) \<and>
      length (rows (fst (RemoveRow t index))) = length (rows t) - 1 \<and>
      (\<forall>j<nat index. rows (fst (RemoveRow t index)) ! j = rows t ! j) \<and>
      (\<forall>j. nat index \<le> j \<and> j < length (rows t) - 1 \<longrightarrow>
           rows (fst (RemoveRow t index)) ! j = rows t ! Suc j)) \<and>
   (index < 0 \<or> int (length (rows t)) \<le> index \<longrightarrow>
      RemoveRow t index = (t, Some SliceBoundsOutOfRange))"
proof (intro conjI impI)
  assume "index < 0 \<or> int (length (rows t)) \<le> index"
  then show "RemoveRow t index = (t, Some SliceBoundsOutOfRange)"
    by (auto simp: RemoveRow_def)
next
  assume r: "0 \<le> index \<and> index < int (length (rows t))"
  define i where "i = nat index"
  have i: "i < length (rows t)" and idx: "nat (index + 1) = Suc i"
    using r by (auto simp: i_def)
  show eq: "RemoveRow t index =
        (t\<lparr>rows := take (nat index) (rows t) @ drop (Suc (nat index)) (rows t)\<rparr>, None)"
    using r idx by (auto simp: RemoveRow_def i_def)
  show "length (rows (fst (RemoveRow t index))) = length (rows t) - 1"
    using i by (simp add: eq i_def [symmetric] min_absorb2)
  show "\<forall>j<nat index. rows (fst (RemoveRow t index)) ! j = rows t ! j"
    using i by (simp add: eq i_def [symmetric] nth_append min_absorb2)
  show "\<forall>j. nat index \<le> j \<and> j < length (rows t) - 1 \<longrightarrow>
           rows (fst (RemoveRow t index)) ! j = rows t ! Suc j"
    using i by (auto simp: eq i_def [symmetric] nth_append min_absorb2)
qed

theorem RemoveRow_in_and_out_of_range_witness:
  "RemoveRow testData 1 =
     (testData\<lparr>rows := [[''1'', ''2'', ''3''], [''7'', ''8'', ''9'']]\<rparr>, None) \<and>
   RemoveRow testData (- 1) = (testData, Some SliceBoundsOutOfRange)"
proof (intro conjI)
  show "RemoveRow testData 1 =
     (testData\<lparr>rows := [[''1'', ''2'', ''3''], [''7'', ''8'', ''9'']]\<rparr>, None)"
    using RemoveRow_in_and_out_of_range [of 1 testData]
    by (simp add: testData_def)
  show "RemoveRow testData (- 1) = (testData, Some SliceBoundsOutOfRange)"
    using RemoveRow_in_and_out_of_range [of "- 1" testData]
    by simp
qed

text \<open>
  C6 as the specification states it fails: at index 3 of the three rows of the tests'
  table the call ends in the run time's panic for a slice out of range, which is not an
  error value that a check of \<^verbatim>\<open>RemoveRow\<close> produced.
\<close>

theorem RemoveRow_out_of_range_counterexample:
  "RemoveRow testData 3 = (testData, Some SliceBoundsOutOfRange)"
  by (simp add: RemoveRow_def testData_def)



text \<open>
  C9. \<^verbatim>\<open>AppendRow\<close> with a row whose length differs from the number of fields returns
  an error and leaves the table as it was: the same fields, the same rows, the same
  number of rows.
\<close>

theorem AppendRow_atomic:
  assumes "length row \<noteq> length (fields' t)"
  shows "snd (AppendRow t row) \<noteq> None \<and> fst (AppendRow t row) = t \<and>
         Fields (fst (AppendRow t row)) = Fields t \<and>
         RowValues (fst (AppendRow t row)) = RowValues t \<and>
         Len (fst (AppendRow t row)) = Len t"
  using assms by (simp add: AppendRow_def)

theorem AppendRow_atomic_witness:
  "snd (AppendRow testData [''10'', ''11'']) = Some (RowLengthError 3 2) \<and>
   fst (AppendRow testData [''10'', ''11'']) = testData \<and>
   Len (fst (AppendRow testData [''10'', ''11''])) = 3"
proof -
  have "length [''10'', ''11''] \<noteq> length (fields' testData)"
    by (simp add: testData_def)
  from AppendRow_atomic [OF this] show ?thesis
    by (simp add: AppendRow_def Len_def testData_def)
qed

section \<open>Copy\<close>

text \<open>
  C2. The copy of a table that was built with options has no options: it is not equal to
  its source. The table is the one that \<^verbatim>\<open>NewWithOptions\<close> builds in the tests from
  the required fields \<open>value\<close> and \<open>name\<close>.
\<close>

theorem Copy_drops_options:
  "NewWithOptions (Some \<lparr>OptionalFields = [], RequiredFields = [''value'', ''name'']\<rparr>)
     [''name'', ''value''] [[''foo'', ''bar'']] = Inr requiredTable \<and>
   Copy requiredTable =
     \<lparr>fields' = [''name'', ''value''], rows = [[''foo'', ''bar'']], options = None\<rparr> \<and>
   Copy requiredTable \<noteq> requiredTable"
  by (simp add: NewWithOptions_def validateFields_def requiredTable_def Copy_def
      copier_Copy_def)

end
